theory Spec2Isabelle
  imports Main
begin

section \<open>Python values\<close>

text \<open>
  The analysis pipeline of \<^verbatim>\<open>ats_utils/ats_ai.py\<close> works on the values that
  \<^verbatim>\<open>json.loads\<close> and \<^verbatim>\<open>resp.json()\<close> produce: \<^verbatim>\<open>None\<close>, booleans, integers, floats,
  strings, lists and dictionaries with string keys. A dictionary is an association list
  in insertion order. A \<open>char\<close> stands for a code point below 256. No arithmetic is ever
  done on a float, so a float is only data: a finite value \<open>m * 2^e\<close> or one of the
  three special values.
\<close>

datatype pyfloat = Finite int int | PosInf | NegInf | NaN

datatype pyval =
    PNone
  | PBool bool
  | PInt int
  | PFloat pyfloat
  | PStr string
  | PList "pyval list"
  | PDict "(string \<times> pyval) list"

type_synonym pydict = "(string \<times> pyval) list"

text \<open>The exceptions that the modelled code can meet; all are subclasses of \<^verbatim>\<open>Exception\<close>.\<close>

datatype exn =
    KeyError string
  | TypeError
  | AttributeError
  | IndexError
  | RuntimeError string
  | LibraryError string

text \<open>Truth value of a Python object, as \<^verbatim>\<open>if x\<close>, \<^verbatim>\<open>not x\<close> and \<^verbatim>\<open>x or y\<close> use it.\<close>

fun truthy :: "pyval \<Rightarrow> bool" where
  "truthy PNone = False"
| "truthy (PBool b) = b"
| "truthy (PInt i) = (i \<noteq> 0)"
| "truthy (PFloat (Finite m e)) = (m \<noteq> 0)"
| "truthy (PFloat f) = True"
| "truthy (PStr s) = (s \<noteq> [])"
| "truthy (PList xs) = (xs \<noteq> [])"
| "truthy (PDict d) = (d \<noteq> [])"

text \<open>\<^verbatim>\<open>a or b\<close>\<close>

definition py_or :: "pyval \<Rightarrow> pyval \<Rightarrow> pyval" where
  "py_or a b = (if truthy a then a else b)"

text \<open>\<^verbatim>\<open>isinstance(x, dict)\<close>\<close>

fun is_dict :: "pyval \<Rightarrow> bool" where
  "is_dict (PDict d) = True"
| "is_dict v = False"

subsection \<open>Dictionary operations\<close>

text \<open>\<^verbatim>\<open>k in d\<close> for a dictionary \<open>d\<close>.\<close>

definition dict_contains :: "string \<Rightarrow> pydict \<Rightarrow> bool" where
  "dict_contains k d = (map_of d k \<noteq> None)"

text \<open>\<^verbatim>\<open>d[k] = v\<close>: an existing key keeps its place, a new key goes to the end.\<close>

fun dict_set :: "string \<Rightarrow> pyval \<Rightarrow> pydict \<Rightarrow> pydict" where
  "dict_set k v [] = [(k, v)]"
| "dict_set k v ((k', v') # d) = (if k' = k then (k, v) # d else (k', v') # dict_set k v d)"

text \<open>\<^verbatim>\<open>d.get(k)\<close>: \<^verbatim>\<open>None\<close> for a missing key.\<close>

definition dict_get :: "string \<Rightarrow> pydict \<Rightarrow> pyval" where
  "dict_get k d = (case map_of d k of None \<Rightarrow> PNone | Some v \<Rightarrow> v)"

text \<open>\<^verbatim>\<open>d[k]\<close>: raises \<^verbatim>\<open>KeyError\<close> for a missing key.\<close>

definition dict_item :: "string \<Rightarrow> pydict \<Rightarrow> exn + pyval" where
  "dict_item k d = (case map_of d k of None \<Rightarrow> Inl (KeyError k) | Some v \<Rightarrow> Inr v)"

subsection \<open>Operations on an object of unknown type\<close>

text \<open>
  \<^verbatim>\<open>k in x\<close> with a string \<open>k\<close>: key membership in a dictionary, element membership in a
  list, substring test in a string; every other JSON value is not a container.
\<close>

fun is_substring :: "string \<Rightarrow> string \<Rightarrow> bool" where
  "is_substring k [] = (k = [])"
| "is_substring k (c # cs) = (take (length k) (c # cs) = k \<or> is_substring k cs)"

fun py_contains :: "string \<Rightarrow> pyval \<Rightarrow> exn + bool" where
  "py_contains k (PDict d) = Inr (dict_contains k d)"
| "py_contains k (PList xs) = Inr (PStr k \<in> set xs)"
| "py_contains k (PStr s) = Inr (is_substring k s)"
| "py_contains k v = Inl TypeError"

text \<open>\<^verbatim>\<open>x[k] = v\<close> with a string \<open>k\<close>: only a dictionary accepts it.\<close>

fun py_setitem :: "string \<Rightarrow> pyval \<Rightarrow> pyval \<Rightarrow> exn + pyval" where
  "py_setitem k v (PDict d) = Inr (PDict (dict_set k v d))"
| "py_setitem k v x = Inl TypeError"

text \<open>\<^verbatim>\<open>x.get(k)\<close>: only a dictionary has the method.\<close>

fun py_get :: "string \<Rightarrow> pyval \<Rightarrow> exn + pyval" where
  "py_get k (PDict d) = Inr (dict_get k d)"
| "py_get k x = Inl AttributeError"

text \<open>\<^verbatim>\<open>x[0]\<close> on a truthy object.\<close>

fun py_first :: "pyval \<Rightarrow> exn + pyval" where
  "py_first (PList (x # xs)) = Inr x"
| "py_first (PList []) = Inl IndexError"
| "py_first (PStr (c # cs)) = Inr (PStr [c])"
| "py_first (PStr []) = Inl IndexError"
| "py_first (PDict d) = Inl (KeyError ''0'')"
| "py_first x = Inl TypeError"

section \<open>The schema normalizer\<close>

definition defaults_extracted :: pydict where
  "defaults_extracted =
    [(''name'', PStr ''''),
     (''email'', PStr ''''),
     (''position'', PStr ''''),
     (''experience'', PStr ''Fresher''),
     (''skills'', PList [])]"

definition defaults_skills_relevance :: pydict where
  "defaults_skills_relevance =
    [(''matched'', PList []),
     (''missing'', PList [])]"

definition defaults :: pydict where
  "defaults =
    [(''score'', PInt 50),
     (''matched_keywords'', PList []),
     (''missing_keywords'', PList []),
     (''formatting_issues'', PList []),
     (''suggestions'', PList []),
     (''strengths'', PList []),
     (''extracted'', PDict defaults_extracted),
     (''grammatical_errors'', PList []),
     (''professional_tone'', PStr ''''),
     (''unnecessary_info'', PList []),
     (''experience_relevance'', PStr ''''),
     (''skills_relevance'', PDict defaults_skills_relevance)]"

text \<open>
  \<^verbatim>\<open>for key, val in defaults.items(): if key not in data: data[key] = val\<close>
\<close>

fun fill_missing :: "pydict \<Rightarrow> pydict \<Rightarrow> pydict" where
  "fill_missing [] data = data"
| "fill_missing ((key, val) # rest) data =
     fill_missing rest (if \<not> dict_contains key data then dict_set key val data else data)"

text \<open>
  \<^verbatim>\<open>data[name][sub_key] = sub_val\<close>: the nested object is looked up, then assigned into.
  The nested dictionary is mutated in place; in the model the updated dictionary is
  stored back under the same key, which keeps its place.
\<close>

definition set_nested :: "string \<Rightarrow> string \<Rightarrow> pyval \<Rightarrow> pydict \<Rightarrow> exn + pydict" where
  "set_nested name sub_key sub_val data =
     (case dict_item name data of
        Inl e \<Rightarrow> Inl e
      | Inr sub \<Rightarrow>
          (case py_setitem sub_key sub_val sub of
             Inl e \<Rightarrow> Inl e
           | Inr sub' \<Rightarrow> Inr (dict_set name sub' data)))"

text \<open>
  \<^verbatim>\<open>for sub_key, sub_val in defaults[name].items():
      if sub_key not in data[name]: data[name][sub_key] = sub_val\<close>
\<close>

fun fill_nested :: "string \<Rightarrow> pydict \<Rightarrow> pydict \<Rightarrow> exn + pydict" where
  "fill_nested name [] data = Inr data"
| "fill_nested name ((sub_key, sub_val) # rest) data =
     (case dict_item name data of
        Inl e \<Rightarrow> Inl e
      | Inr sub \<Rightarrow>
          (case py_contains sub_key sub of
             Inl e \<Rightarrow> Inl e
           | Inr True \<Rightarrow> fill_nested name rest data
           | Inr False \<Rightarrow>
               (case set_nested name sub_key sub_val data of
                  Inl e \<Rightarrow> Inl e
                | Inr data' \<Rightarrow> fill_nested name rest data')))"

text \<open>\<^verbatim>\<open>if not isinstance(data.get(name), dict): data[name] = {}\<close>\<close>

definition ensure_dict :: "string \<Rightarrow> pydict \<Rightarrow> pydict" where
  "ensure_dict name data =
     (if \<not> is_dict (dict_get name data) then dict_set name (PDict []) data else data)"

text \<open>
  \<^verbatim>\<open>_merge_defaults(data, jd_present)\<close>. The source mutates \<open>data\<close> and returns it; the
  model returns the new value. Every subscript that could raise is a branch.
\<close>

definition merge_defaults :: "pyval \<Rightarrow> bool \<Rightarrow> exn + pyval" where
  "merge_defaults data jd_present =
     (let d0 = (case data of PDict d \<Rightarrow> d | _ \<Rightarrow> []);
          d1 = fill_missing defaults d0;
          d2 = ensure_dict ''extracted'' d1;
          d3 = ensure_dict ''skills_relevance'' d2
      in case fill_nested ''extracted'' defaults_extracted d3 of
           Inl e \<Rightarrow> Inl e
         | Inr d4 \<Rightarrow>
             (case fill_nested ''skills_relevance'' defaults_skills_relevance d4 of
                Inl e \<Rightarrow> Inl e
              | Inr d5 \<Rightarrow>
                  if \<not> jd_present then
                    (let d6 = dict_set ''missing_keywords'' (PList []) d5
                     in case set_nested ''skills_relevance'' ''missing'' (PList []) d6 of
                          Inl e \<Rightarrow> Inl e
                        | Inr d7 \<Rightarrow>
                            (case set_nested ''extracted'' ''position'' (PStr '''') d7 of
                               Inl e \<Rightarrow> Inl e
                             | Inr d8 \<Rightarrow> Inr (PDict d8)))
                  else Inr (PDict d5)))"

section \<open>String operations\<close>

text \<open>
  Whitespace as \<^verbatim>\<open>str.strip()\<close> and \<^verbatim>\<open>str.split()\<close> understand it, for code points
  below 256: tab, line feed, vertical tab, form feed, carriage return, the four
  separators 28 to 31, space, next line (133) and no-break space (160).
\<close>

definition py_isspace :: "char \<Rightarrow> bool" where
  "py_isspace c = ((of_char c :: nat) \<in> {9, 10, 11, 12, 13, 28, 29, 30, 31, 32, 133, 160})"

text \<open>\<^verbatim>\<open>s.strip()\<close>\<close>

definition py_strip :: "string \<Rightarrow> string" where
  "py_strip s = rev (dropWhile py_isspace (rev (dropWhile py_isspace s)))"

text \<open>\<^verbatim>\<open>s.lower()\<close>, for code points below 256.\<close>

definition py_lower_char :: "char \<Rightarrow> char" where
  "py_lower_char c =
     (let n = (of_char c :: nat)
      in if (65 \<le> n \<and> n \<le> 90) \<or> (192 \<le> n \<and> n \<le> 222 \<and> n \<noteq> 215)
         then char_of (n + 32) else c)"

definition py_lower :: "string \<Rightarrow> string" where
  "py_lower s = map py_lower_char s"

text \<open>
  \<^verbatim>\<open>s.split()\<close>: the maximal runs of non-whitespace characters, in order. The first
  argument is the run collected so far.
\<close>

fun split_ws :: "string \<Rightarrow> string \<Rightarrow> string list" where
  "split_ws cur [] = (if cur = [] then [] else [cur])"
| "split_ws cur (c # cs) =
     (if py_isspace c then (if cur = [] then split_ws [] cs else cur # split_ws [] cs)
      else split_ws (cur @ [c]) cs)"

definition py_split :: "string \<Rightarrow> string list" where
  "py_split s = split_ws [] s"

text \<open>\<^verbatim>\<open>sep.join(xs)\<close>\<close>

fun py_join :: "string \<Rightarrow> string list \<Rightarrow> string" where
  "py_join sep [] = []"
| "py_join sep [x] = x"
| "py_join sep (x # y # ys) = x @ sep @ py_join sep (y # ys)"

text \<open>
  \<^verbatim>\<open>s.find(c)\<close> and \<^verbatim>\<open>s.rfind(c)\<close> for a one-character \<open>c\<close>: the index of the first
  (last) occurrence, \<open>-1\<close> when there is none.
\<close>

fun find_from :: "char \<Rightarrow> string \<Rightarrow> int \<Rightarrow> int" where
  "find_from c [] i = - 1"
| "find_from c (x # xs) i = (if x = c then i else find_from c xs (i + 1))"

definition py_find :: "char \<Rightarrow> string \<Rightarrow> int" where
  "py_find c s = find_from c s 0"

fun rfind_from :: "char \<Rightarrow> string \<Rightarrow> int \<Rightarrow> int \<Rightarrow> int" where
  "rfind_from c [] i found = found"
| "rfind_from c (x # xs) i found = rfind_from c xs (i + 1) (if x = c then i else found)"

definition py_rfind :: "char \<Rightarrow> string \<Rightarrow> int" where
  "py_rfind c s = rfind_from c s 0 (- 1)"

text \<open>
  \<^verbatim>\<open>s[i:j]\<close>: a negative index counts from the end, and both ends are clipped to the
  string.
\<close>

definition slice_index :: "int \<Rightarrow> int \<Rightarrow> nat" where
  "slice_index n i = nat (max 0 (min n (if i < 0 then i + n else i)))"

definition py_slice :: "string \<Rightarrow> int \<Rightarrow> int \<Rightarrow> string" where
  "py_slice s i j =
     (let n = int (length s); a = slice_index n i; b = slice_index n j
      in take (b - a) (drop a s))"

section \<open>The environment\<close>

text \<open>
  What the module takes from outside: the credential read from the process environment
  at import time, the HTTP exchange with the generation service (\<^verbatim>\<open>requests.post\<close>,
  \<^verbatim>\<open>raise_for_status\<close> and \<^verbatim>\<open>resp.json()\<close> together: the decoded response body, or the
  exception raised on the way), and the two library functions \<^verbatim>\<open>json.loads\<close> (\<open>None\<close>
  when it raises) and \<^verbatim>\<open>str\<close>. The request body is fixed but for the prompt, so the
  exchange is a function of the prompt.
\<close>

record env =
  API_KEY :: "string option"
  post_chat :: "string \<Rightarrow> exn + pyval"
  json_loads :: "string \<Rightarrow> pyval option"
  str_of :: "pyval \<Rightarrow> string"

text \<open>\<^verbatim>\<open>if API_KEY\<close>: the variable is set and not empty.\<close>

definition has_key :: "env \<Rightarrow> bool" where
  "has_key E = (case API_KEY E of None \<Rightarrow> False | Some k \<Rightarrow> k \<noteq> [])"

section \<open>JSON recovery\<close>

text \<open>
  \<^verbatim>\<open>_safe_parse_json(raw)\<close>. The result is a Python value, \<^verbatim>\<open>None\<close> standing for failure;
  \<^verbatim>\<open>raw.strip()\<close> raises \<^verbatim>\<open>AttributeError\<close> when \<open>raw\<close> is not a string.
\<close>

definition safe_parse_json :: "env \<Rightarrow> pyval \<Rightarrow> exn + pyval" where
  "safe_parse_json E raw =
     (case raw of
        PNone \<Rightarrow> Inr PNone
      | PStr s \<Rightarrow>
          (let raw' = py_strip s
           in case json_loads E raw' of
                Some v \<Rightarrow> Inr v
              | None \<Rightarrow>
                  (let start = py_find CHR ''{'' raw';
                       end' = py_rfind CHR ''}'' raw'
                   in if start \<noteq> - 1 \<and> end' \<noteq> - 1 \<and> end' > start then
                        (case json_loads E (py_slice raw' start (end' + 1)) of
                           Some v \<Rightarrow> Inr v
                         | None \<Rightarrow> Inr PNone)
                      else Inr PNone))
      | _ \<Rightarrow> Inl AttributeError)"

section \<open>Prompts\<close>

text \<open>
  The templates are the source's text, line by line. The en dash and the bullet of the
  source lie outside the range of \<open>char\<close> and are written as their UTF-8 bytes; the
  templates are only concatenated and sent, never inspected.
\<close>

definition nl :: string where
  "nl = [CHR 0x0A]"

definition en_dash :: string where
  "en_dash = [CHR 0xE2, CHR 0x80, CHR 0x93]"

definition bullet :: string where
  "bullet = [CHR 0xE2, CHR 0x80, CHR 0xA2]"

definition BASE_JSON :: string where
  \<open>BASE_JSON =
     py_join nl
      ['''',
       ''{'',
       ''  "score": 0,'',
       ''  "matched_keywords": [],'',
       ''  "missing_keywords": [],'',
       ''  "formatting_issues": [],'',
       ''  "suggestions": [],'',
       ''  "strengths": [],'',
       '''',
       ''  "extracted": {'',
       ''      "name": "",'',
       ''      "email": "",'',
       ''      "position": "",'',
       ''      "experience": "Fresher",'',
       ''      "skills": []'',
       ''  },'',
       '''',
       ''  "grammatical_errors": [],'',
       ''  "professional_tone": "",'',
       ''  "unnecessary_info": [],'',
       ''  "experience_relevance": "",'',
       ''  "skills_relevance": {'',
       ''      "matched": [],'',
       ''      "missing": []'',
       ''  }'',
       ''}'',
       '''']\<close>

definition build_resume_only_prompt :: "string \<Rightarrow> string" where
  \<open>build_resume_only_prompt resume_text =
     py_join nl
      ['''',
       ''You are an expert Applicant Tracking System (ATS). Only the resume is provided (NO job description).'',
       '''',
       ''Return ONLY valid JSON with no extra text. It MUST match this schema:'',
       '''',
       '''']
   @
     BASE_JSON
   @
     py_join nl
      ['''',
       '''',
       ''========================'',
       ''SCORING (RESUME ONLY)'',
       ''========================'',
       ''- "score": integer 0'' @ en_dash @ ''100.'',
       ''- This score reflects overall resume quality for generic tech/software roles.'',
       ''- Use BALANCED, REALISTIC scoring:'',
       ''    '' @ bullet @ '' Strong fresher resume: 65'' @ en_dash @ ''80'',
       ''    '' @ bullet @ '' Average: 45'' @ en_dash @ ''65'',
       ''    '' @ bullet @ '' Weak: below 45'',
       '''',
       ''========================'',
       ''KEYWORDS & SKILLS'',
       ''========================'',
       ''- "matched_keywords": skills present in resume'',
       ''- "missing_keywords": MUST be []'',
       ''- "skills_relevance.missing": MUST be []'',
       ''- "skills_relevance.matched": skills in resume'',
       '''',
       ''========================'',
       ''EXTRACTED SECTION'',
       ''========================'',
       ''- "extracted.name": candidate name'',
       ''- "extracted.email": candidate email'',
       ''- "extracted.position": "" (NO JD)'',
       ''- "extracted.experience": "Fresher" or number of years'',
       ''- "extracted.skills": 5'' @ en_dash @ ''10 skills'',
       '''',
       ''========================'',
       ''GRAMMAR vs FORMATTING'',
       ''========================'',
       ''- real grammar issues only'',
       ''- spacing/layout issues belong in formatting_issues'',
       '''',
       ''========================'',
       ''RESUME BELOW'',
       ''========================'',
       '''',
       '''']
   @
     resume_text
   @
     py_join nl
      ['''',
       '''']\<close>

definition build_resume_jd_prompt :: "string \<Rightarrow> string \<Rightarrow> string" where
  \<open>build_resume_jd_prompt resume_text jd =
     py_join nl
      ['''',
       ''You are an Applicant Tracking System (ATS) evaluating ONE candidate for ONE specific job.'',
       '''',
       ''Return ONLY valid JSON with no extra text. Use this schema:'',
       '''',
       '''']
   @
     BASE_JSON
   @
     py_join nl
      ['''',
       '''',
       ''========================'',
       ''SCORING WITH JOB DESCRIPTION'',
       ''========================'',
       ''- "score": 0'' @ en_dash @ ''100 based on resume match to JD'',
       ''- realistic ATS scoring required:'',
       ''    '' @ bullet @ '' Excellent: 80'' @ en_dash @ ''95'',
       ''    '' @ bullet @ '' Good: 65'' @ en_dash @ ''80'',
       ''    '' @ bullet @ '' Average: 45'' @ en_dash @ ''65'',
       ''    '' @ bullet @ '' Poor: <45'',
       '''',
       ''========================'',
       ''MATCHED & MISSING KEYWORDS'',
       ''========================'',
       ''- matched_keywords = skills in BOTH resume & JD'',
       ''- missing_keywords = required in JD but missing in resume'',
       ''- skills_relevance must match this logic'',
       '''',
       ''========================'',
       ''POSITION & EXPERIENCE'',
       ''========================'',
       ''- extracted.position = main JD role'',
       ''- experience mapping same as before'',
       '''',
       ''========================'',
       '''',
       ''RESUME:'',
       '''']
   @
     resume_text
   @
     py_join nl
      ['''',
       '''',
       ''JOB DESCRIPTION:'',
       '''']
   @
     jd
   @
     py_join nl
      ['''',
       '''']\<close>

section \<open>The generative path\<close>

text \<open>
  A computation that may send requests to the generation service yields its outcome
  together with the prompts it has sent, in order. Diagnostic printing is left out.
\<close>

type_synonym 'a traced = "(exn + 'a) \<times> string list"

text \<open>
  \<^verbatim>\<open>_call_model_chat(prompt)\<close>: raises before any request when no credential is set,
  otherwise sends the prompt.
\<close>

definition call_model_chat :: "env \<Rightarrow> string \<Rightarrow> pyval traced" where
  "call_model_chat E prompt =
     (if \<not> has_key E then (Inl (RuntimeError ''No GROQ API key configured''), [])
      else (post_chat E prompt, [prompt]))"

text \<open>
  The body of the \<^verbatim>\<open>try\<close> block of \<^verbatim>\<open>_model_response_to_text\<close>. The inner result
  \<open>None\<close> means that the first choice gave no text and control reaches the last
  \<^verbatim>\<open>return\<close>.
\<close>

definition first_choice_content :: "pyval \<Rightarrow> exn + pyval option" where
  "first_choice_content choices =
     (if truthy choices then
        (case py_first choices of
           Inl e \<Rightarrow> Inl e
         | Inr first \<Rightarrow>
             (case py_get ''message'' first of
                Inl e \<Rightarrow> Inl e
              | Inr m \<Rightarrow>
                  (let msg = py_or m (PDict [])
                   in case py_get ''content'' msg of
                        Inl e \<Rightarrow> Inl e
                      | Inr c \<Rightarrow>
                          (if truthy c then Inr (Some c)
                           else (case py_get ''text'' first of
                                   Inl e \<Rightarrow> Inl e
                                 | Inr t \<Rightarrow>
                                     (let content = py_or t (PStr '''')
                                      in Inr (if truthy content then Some content else None)))))))
      else Inr None)"

definition response_text_try :: "env \<Rightarrow> pyval \<Rightarrow> exn + pyval" where
  "response_text_try E response =
     (case py_get ''choices'' response of
        Inl e \<Rightarrow> Inl e
      | Inr c \<Rightarrow>
          (case first_choice_content (py_or c (PList [])) of
             Inl e \<Rightarrow> Inl e
           | Inr (Some content) \<Rightarrow> Inr content
           | Inr None \<Rightarrow>
               (case py_get ''output'' response of
                  Inl e \<Rightarrow> Inl e
                | Inr out \<Rightarrow>
                    (if truthy out then Inr out
                     else (case py_get ''result'' response of
                             Inl e \<Rightarrow> Inl e
                           | Inr res \<Rightarrow>
                               Inr (if truthy res then res else PStr (str_of E response)))))))"

text \<open>\<^verbatim>\<open>_model_response_to_text(response)\<close>: any exception gives \<^verbatim>\<open>str(response)\<close>.\<close>

definition model_response_to_text :: "env \<Rightarrow> pyval \<Rightarrow> pyval" where
  "model_response_to_text E response =
     (case response_text_try E response of
        Inl e \<Rightarrow> PStr (str_of E response)
      | Inr text \<Rightarrow> text)"

text \<open>
  \<^verbatim>\<open>_analyze_with_model(prompt, resume_text, jd_present)\<close>: the pair of the normalized
  parse (or \<^verbatim>\<open>None\<close>) and the raw response.
\<close>

definition analyze_with_model :: "env \<Rightarrow> string \<Rightarrow> string \<Rightarrow> bool \<Rightarrow> (pyval \<times> pyval) traced" where
  "analyze_with_model E prompt resume_text jd_present =
     (case call_model_chat E prompt of
        (Inl e, sent) \<Rightarrow> (Inl e, sent)
      | (Inr raw_resp, sent) \<Rightarrow>
          (let text = model_response_to_text E raw_resp
           in case safe_parse_json E text of
                Inl e \<Rightarrow> (Inl e, sent)
              | Inr parsed \<Rightarrow>
                  (case (if parsed = PNone then safe_parse_json E text else Inr parsed) of
                     Inl e \<Rightarrow> (Inl e, sent)
                   | Inr parsed' \<Rightarrow>
                       (if parsed' = PNone then (Inr (PNone, raw_resp), sent)
                        else (case merge_defaults parsed' jd_present of
                                Inl e \<Rightarrow> (Inl e, sent)
                              | Inr merged \<Rightarrow> (Inr (merged, raw_resp), sent))))))"

text \<open>
  The guarded attempt shared by both entry points:
  \<^verbatim>\<open>if API_KEY: try: parsed, raw = _analyze_with_model(...); if parsed is not None: return parsed
  except Exception: print(...)\<close>. \<open>Some parsed\<close> is the early return, \<open>None\<close> falls through.
\<close>

definition try_model :: "env \<Rightarrow> string \<Rightarrow> string \<Rightarrow> bool \<Rightarrow> pyval option \<times> string list" where
  "try_model E prompt resume_text jd_present =
     (if has_key E then
        (case analyze_with_model E prompt resume_text jd_present of
           (Inl e, sent) \<Rightarrow> (None, sent)
         | (Inr (parsed, raw), sent) \<Rightarrow> (if parsed \<noteq> PNone then Some parsed else None, sent))
      else (None, []))"

section \<open>The heuristic fallback\<close>

definition skill_vocabulary :: "string list" where
  "skill_vocabulary =
     [''python'', ''java'', ''sql'', ''javascript'', ''react'', ''aws'', ''docker'', ''c++'', ''c'']"

text \<open>The dictionary built after the comment \<^verbatim>\<open># fallback simple heuristic\<close>.\<close>

definition fallback_report :: "string \<Rightarrow> pyval" where
  "fallback_report resume_text =
     (let words = py_split (py_lower resume_text);
          skills = filter (\<lambda>w. w \<in> set words) skill_vocabulary
      in PDict
        [(''score'', PInt 55),
         (''matched_keywords'', PList (map PStr (take 5 skills))),
         (''missing_keywords'', PList []),
         (''formatting_issues'', PList []),
         (''suggestions'',
            PList [PStr ''Use relevant keywords from job description'', PStr ''Improve bullet clarity'']),
         (''strengths'', PList [PStr ''Education present'', PStr ''Projects listed'']),
         (''extracted'', PDict
            [(''name'', PStr ''''),
             (''email'', PStr ''''),
             (''position'', PStr ''''),
             (''experience'', PStr (if length words > 40 then ''1-2 years'' else ''Fresher'')),
             (''skills'', PList (map PStr (take 5 skills)))]),
         (''grammatical_errors'', PList []),
         (''professional_tone'', PStr ''''),
         (''unnecessary_info'', PList []),
         (''experience_relevance'', PStr ''''),
         (''skills_relevance'', PDict
            [(''matched'', PList (map PStr (take 3 skills))),
             (''missing'', PList [])]),
         (''error'', PStr ''fallback_used'')])"

text \<open>\<^verbatim>\<open>_analyze_resume_only(resume_text)\<close>\<close>

definition analyze_resume_only :: "env \<Rightarrow> string \<Rightarrow> pyval traced" where
  "analyze_resume_only E resume_text =
     (let prompt = build_resume_only_prompt resume_text
      in case try_model E prompt resume_text False of
           (Some parsed, sent) \<Rightarrow> (Inr parsed, sent)
         | (None, sent) \<Rightarrow> (merge_defaults (fallback_report resume_text) False, sent))"

section \<open>The entry point\<close>

text \<open>
  \<^verbatim>\<open>analyze_resume_with_ai(resume_text, job_description)\<close>; an absent job description is
  \<open>None\<close>.
\<close>

definition analyze_resume_with_ai :: "env \<Rightarrow> string \<Rightarrow> string option \<Rightarrow> pyval traced" where
  "analyze_resume_with_ai E resume_text job_description =
     (let jd = py_strip (case job_description of None \<Rightarrow> '''' | Some s \<Rightarrow> s)
      in if jd = [] then analyze_resume_only E resume_text
         else
           (let prompt = build_resume_jd_prompt resume_text jd
            in case try_model E prompt resume_text True of
                 (Some parsed, sent) \<Rightarrow> (Inr parsed, sent)
               | (None, sent) \<Rightarrow>
                   (case analyze_resume_only E resume_text of
                      (r, sent') \<Rightarrow> (r, sent @ sent'))))"

section \<open>Document text extraction\<close>

text \<open>
  \<^verbatim>\<open>ats_utils/extract_any.py\<close>. The file system and the document libraries are taken from
  outside: whether a path exists, and what each library call yields for a path, either
  its data or the exception it raises. A PyPDF2 page is the result of its
  \<^verbatim>\<open>extract_text()\<close> (\<^verbatim>\<open>None\<close> or a string); a PyMuPDF page is its plain text and its
  blocks, each block a tuple; a Word document is the list of its paragraph texts. For
  \<^verbatim>\<open>pdfminer\<close> the failure is the text of the exception, \<^verbatim>\<open>str(e)\<close>.
\<close>

record fitz_page =
  page_text :: string
  page_blocks :: "pyval list list"

record files =
  path_exists :: "string \<Rightarrow> bool"
  pypdf2_pages :: "string \<Rightarrow> exn + string option list"
  docx2txt_process :: "string \<Rightarrow> exn + string"
  fitz_open :: "string \<Rightarrow> exn + fitz_page list"
  docx_paragraphs :: "string \<Rightarrow> exn + string list"
  pdfminer_extract_text :: "string \<Rightarrow> string + string"

text \<open>
  \<^verbatim>\<open>os.path.splitext(path)[1]\<close> on a POSIX system: the part of the last path component
  from its last dot on, empty when there is no dot or only leading dots.
\<close>

definition splitext_ext :: "string \<Rightarrow> string" where
  "splitext_ext p =
     (let sep_index = py_rfind CHR ''/'' p;
          dot_index = py_rfind CHR ''.'' p
      in if dot_index > sep_index
            \<and> list_ex (\<lambda>c. c \<noteq> CHR ''.'') (py_slice p (sep_index + 1) dot_index)
         then py_slice p dot_index (int (length p)) else [])"

text \<open>\<^verbatim>\<open>s.split(c)\<close> for a one-character separator: never empty.\<close>

fun split_on :: "char \<Rightarrow> string \<Rightarrow> string list" where
  "split_on c [] = [[]]"
| "split_on c (x # xs) =
     (if x = c then [] # split_on c xs
      else (case split_on c xs of w # ws \<Rightarrow> (x # w) # ws | [] \<Rightarrow> [[x]]))"

text \<open>\<^verbatim>\<open>extract_pdf(path)\<close>: \<^verbatim>\<open>text += page.extract_text() or ""\<close> over the pages.\<close>

definition extract_pdf :: "files \<Rightarrow> string \<Rightarrow> exn + string" where
  "extract_pdf F path =
     (case pypdf2_pages F path of
        Inl e \<Rightarrow> Inl e
      | Inr pages \<Rightarrow> Inr (concat (map (\<lambda>t. case t of None \<Rightarrow> [] | Some s \<Rightarrow> s) pages)))"

definition extract_docx :: "files \<Rightarrow> string \<Rightarrow> exn + string" where
  "extract_docx F path = docx2txt_process F path"

text \<open>\<^verbatim>\<open>extract_any(path)\<close>\<close>

definition extract_any :: "files \<Rightarrow> string \<Rightarrow> exn + string" where
  "extract_any F path =
     (let ext = py_lower (splitext_ext path)
      in if ext = ''.pdf'' then extract_pdf F path
         else if ext \<in> set [''.docx''] then extract_docx F path
         else Inr ''Unsupported file format'')"

text \<open>
  \<^verbatim>\<open>" ".join([blk[4] for blk in blocks if len(blk) > 4])\<close>: joining raises
  \<^verbatim>\<open>TypeError\<close> on an item that is not a string.
\<close>

fun strings_of :: "pyval list \<Rightarrow> exn + string list" where
  "strings_of [] = Inr []"
| "strings_of (PStr s # vs) = (case strings_of vs of Inl e \<Rightarrow> Inl e | Inr ss \<Rightarrow> Inr (s # ss))"
| "strings_of (v # vs) = Inl TypeError"

definition blocks_text :: "pyval list list \<Rightarrow> exn + string" where
  "blocks_text blocks =
     (case strings_of (map (\<lambda>blk. blk ! 4) (filter (\<lambda>blk. length blk > 4) blocks)) of
        Inl e \<Rightarrow> Inl e
      | Inr ss \<Rightarrow> Inr (py_join '' '' ss))"

text \<open>The loop over the pages of \<^verbatim>\<open>extract_text_from_file\<close>, with the text so far.\<close>

fun pages_text :: "fitz_page list \<Rightarrow> string \<Rightarrow> exn + string" where
  "pages_text [] text = Inr text"
| "pages_text (page # pages) text =
     (if py_strip (page_text page) = [] then
        (case blocks_text (page_blocks page) of
           Inl e \<Rightarrow> Inl e
         | Inr t \<Rightarrow> pages_text pages (text @ t @ nl))
      else pages_text pages (text @ page_text page @ nl))"

text \<open>\<^verbatim>\<open>extract_text_from_file(file_path)\<close>\<close>

definition extract_text_from_file :: "files \<Rightarrow> string \<Rightarrow> exn + string" where
  "extract_text_from_file F file_path =
     (if \<not> path_exists F file_path then Inr []
      else
        (let ext = py_lower (last (split_on CHR ''.'' file_path))
         in if ext = ''pdf'' then
              (case fitz_open F file_path of
                 Inl e \<Rightarrow> Inl e
               | Inr pdf \<Rightarrow>
                   (case pages_text pdf [] of
                      Inl e \<Rightarrow> Inl e
                    | Inr text \<Rightarrow> Inr (py_strip text)))
            else if ext = ''docx'' then
              (case docx_paragraphs F file_path of
                 Inl e \<Rightarrow> Inl e
               | Inr paragraphs \<Rightarrow>
                   Inr (py_join nl (map py_strip (filter (\<lambda>p. py_strip p \<noteq> []) paragraphs))))
            else Inr []))"

text \<open>\<^verbatim>\<open>extract_text_from_pdf(file_path)\<close>: every exception becomes a message.\<close>

definition extract_text_from_pdf :: "files \<Rightarrow> string \<Rightarrow> string" where
  "extract_text_from_pdf F file_path =
     (case pdfminer_extract_text F file_path of
        Inr text \<Rightarrow> py_strip text
      | Inl msg \<Rightarrow> ''[ERROR extracting PDF] '' @ msg)"

section \<open>Reading a report\<close>

text \<open>The value under a top-level key, and under a key of a nested record.\<close>

definition field :: "string \<Rightarrow> pyval \<Rightarrow> pyval option" where
  "field k r = (case r of PDict d \<Rightarrow> map_of d k | _ \<Rightarrow> None)"

definition field2 :: "string \<Rightarrow> string \<Rightarrow> pyval \<Rightarrow> pyval option" where
  "field2 k sub r = (case field k r of Some v \<Rightarrow> field sub v | None \<Rightarrow> None)"

text \<open>Every field of the schema is present, the two nested records with their fields.\<close>

definition schema_complete :: "pyval \<Rightarrow> bool" where
  "schema_complete r =
     (list_all (\<lambda>k. field k r \<noteq> None) (map fst defaults)
      \<and> list_all (\<lambda>k. field2 ''extracted'' k r \<noteq> None) (map fst defaults_extracted)
      \<and> list_all (\<lambda>k. field2 ''skills_relevance'' k r \<noteq> None) (map fst defaults_skills_relevance))"

text \<open>The three fields that are empty when no job description was given.\<close>

definition jd_absent_fields :: "pyval \<Rightarrow> bool" where
  "jd_absent_fields r =
     (field ''missing_keywords'' r = Some (PList [])
      \<and> field2 ''skills_relevance'' ''missing'' r = Some (PList [])
      \<and> field2 ''extracted'' ''position'' r = Some (PStr ''''))"

text \<open>The score is an integer between 0 and 100.\<close>

definition score_in_range :: "pyval \<Rightarrow> bool" where
  "score_in_range r = (case field ''score'' r of Some (PInt n) \<Rightarrow> 0 \<le> n \<and> n \<le> 100 | _ \<Rightarrow> False)"

text \<open>\<^verbatim>\<open>(job_description or "").strip()\<close>\<close>

definition trimmed_jd :: "string option \<Rightarrow> string" where
  "trimmed_jd job_description = py_strip (case job_description of None \<Rightarrow> '''' | Some s \<Rightarrow> s)"



text \<open>
  The outcome of the normalizer as a pure function of the input record, used to reason
  about it.
\<close>

definition as_dict :: "pyval \<Rightarrow> pydict" where
  "as_dict data = (case data of PDict d \<Rightarrow> d | _ \<Rightarrow> [])"

definition sub_dict :: "string \<Rightarrow> pydict \<Rightarrow> pydict" where
  "sub_dict name d = (case map_of d name of Some (PDict e) \<Rightarrow> e | _ \<Rightarrow> [])"

definition normal_form :: "pydict \<Rightarrow> bool \<Rightarrow> pydict" where
  "normal_form d0 jd =
     (let d1 = fill_missing defaults d0;
          e = fill_missing defaults_extracted (sub_dict ''extracted'' d1);
          s = fill_missing defaults_skills_relevance (sub_dict ''skills_relevance'' d1);
          d5 = dict_set ''skills_relevance'' (PDict s) (dict_set ''extracted'' (PDict e) d1)
      in if jd then d5
         else dict_set ''extracted'' (PDict (dict_set ''position'' (PStr '''') e))
                (dict_set ''skills_relevance'' (PDict (dict_set ''missing'' (PList []) s))
                   (dict_set ''missing_keywords'' (PList []) d5)))"

section \<open>Sample environments\<close>

text \<open>
  Concrete environments for the worked examples. \<open>sample_loads\<close> is \<^verbatim>\<open>json.loads\<close> on the
  texts the examples hand to it: four JSON texts with their values, and texts that are
  not JSON. \<open>chat_reply\<close> is the usual response envelope around a generated text. The
  envelopes of the examples are well formed, so \<^verbatim>\<open>str\<close> is never reached there.
\<close>

definition sample_loads :: "string \<Rightarrow> pyval option" where
  \<open>sample_loads s =
     (if s = ''{"score": 77}'' then Some (PDict [(''score'', PInt 77)])
      else if s = ''{"score": 150}'' then Some (PDict [(''score'', PInt 150)])
      else if s = ''[1, 2]'' then Some (PList [PInt 1, PInt 2])
      else if s = ''null'' then Some PNone
      else None)\<close>

definition chat_reply :: "string \<Rightarrow> pyval" where
  "chat_reply text =
     PDict [(''choices'',
       PList [PDict [(''index'', PInt 0),
                     (''message'', PDict [(''role'', PStr ''assistant''), (''content'', PStr text)])]])]"

text \<open>A service that answers every prompt with the same text.\<close>

definition reply_env :: "string \<Rightarrow> env" where
  "reply_env text =
     \<lparr>API_KEY = Some ''gsk_test'',
      post_chat = (\<lambda>prompt. Inr (chat_reply text)),
      json_loads = sample_loads,
      str_of = (\<lambda>v. [])\<rparr>"

text \<open>No credential configured.\<close>

definition no_key_env :: env where
  "no_key_env =
     \<lparr>API_KEY = None,
      post_chat = (\<lambda>prompt. Inl (LibraryError ''401 Client Error'')),
      json_loads = sample_loads,
      str_of = (\<lambda>v. [])\<rparr>"

text \<open>A credential, and a service that fails every request.\<close>

definition down_env :: env where
  "down_env =
     \<lparr>API_KEY = Some ''gsk_test'',
      post_chat = (\<lambda>prompt. Inl (LibraryError ''503 Server Error'')),
      json_loads = sample_loads,
      str_of = (\<lambda>v. [])\<rparr>"

text \<open>
  Two file systems for the examples: one where every path exists and every document is
  damaged, so that each library fails on it, and one where no path exists.
\<close>

definition damaged_files :: files where
  "damaged_files =
     \<lparr>path_exists = (\<lambda>p. True),
      pypdf2_pages = (\<lambda>p. Inl (LibraryError ''EOF marker not found'')),
      docx2txt_process = (\<lambda>p. Inl (LibraryError ''File is not a zip file'')),
      fitz_open = (\<lambda>p. Inl (LibraryError ''Failed to open file'')),
      docx_paragraphs = (\<lambda>p. Inl (LibraryError ''Package not found'')),
      pdfminer_extract_text = (\<lambda>p. Inl ''No /Root object! - Is this really a PDF?'')\<rparr>"

definition no_files :: files where
  "no_files =
     \<lparr>path_exists = (\<lambda>p. False),
      pypdf2_pages = (\<lambda>p. Inl (LibraryError ''No such file or directory'')),
      docx2txt_process = (\<lambda>p. Inl (LibraryError ''No such file or directory'')),
      fitz_open = (\<lambda>p. Inl (LibraryError ''no such file'')),
      docx_paragraphs = (\<lambda>p. Inl (LibraryError ''Package not found'')),
      pdfminer_extract_text = (\<lambda>p. Inl ''No such file or directory'')\<rparr>"

section \<open>Properties of the normalizer\<close>

subsection \<open>Dictionaries\<close>

lemma map_of_dict_set: "map_of (dict_set k v d) k' = (if k' = k then Some v else map_of d k')"
  by (induction d) auto

lemma dict_set_same: "map_of d k = Some v \<Longrightarrow> dict_set k v d = d"
  by (induction d) (auto split: if_splits)

lemma dict_set_twice: "dict_set k v (dict_set k v' d) = dict_set k v d"
  by (induction d) auto

lemma dict_set_swap:
  "a \<noteq> b \<Longrightarrow> dict_set a x (dict_set b y (dict_set a z d)) = dict_set b y (dict_set a x d)"
  by (induction d) (auto simp: dict_set_twice)

lemma map_of_fill_missing:
  "map_of (fill_missing kvs d) k = (case map_of d k of Some v \<Rightarrow> Some v | None \<Rightarrow> map_of kvs k)"
  by (induction kvs arbitrary: d) (auto simp: dict_contains_def map_of_dict_set split: option.splits)

lemma fill_missing_present:
  "list_all (\<lambda>k. map_of d k \<noteq> None) (map fst kvs) \<Longrightarrow> fill_missing kvs d = d"
  by (induction kvs arbitrary: d) (auto simp: dict_contains_def)

lemma dict_contains_dict_set: "dict_contains k' (dict_set k v d) = (k' = k \<or> dict_contains k' d)"
  by (simp add: dict_contains_def map_of_dict_set)

lemma dict_contains_fill_missing:
  "dict_contains k (fill_missing kvs d) = (dict_contains k d \<or> k \<in> fst ` set kvs)"
proof -
  have "map_of kvs k \<noteq> None \<longleftrightarrow> k \<in> fst ` set kvs"
    by (simp add: map_of_eq_None_iff)
  then show ?thesis
    by (cases "map_of d k") (simp_all add: dict_contains_def map_of_fill_missing)
qed

lemma sub_dict_dict_set:
  "sub_dict n (dict_set k v d) = (if n = k then (case v of PDict e \<Rightarrow> e | _ \<Rightarrow> []) else sub_dict n d)"
  by (simp add: sub_dict_def map_of_dict_set)

lemma ensure_dict_eq: "ensure_dict name d = dict_set name (PDict (sub_dict name d)) d"
  by (auto simp: ensure_dict_def sub_dict_def dict_get_def dict_set_same split: option.splits pyval.splits)

lemma set_nested_dict:
  "map_of d name = Some (PDict e) \<Longrightarrow>
   set_nested name k v d = Inr (dict_set name (PDict (dict_set k v e)) d)"
  by (simp add: set_nested_def dict_item_def)

lemma fill_nested_dict:
  "map_of d name = Some (PDict e) \<Longrightarrow>
   fill_nested name kvs d = Inr (dict_set name (PDict (fill_missing kvs e)) d)"
proof (induction kvs arbitrary: d e)
  case Nil
  then show ?case by (simp add: dict_set_same)
next
  case (Cons kv kvs)
  obtain k v where kv: "kv = (k, v)" by (cases kv)
  show ?case
  proof (cases "dict_contains k e")
    case True
    with Cons kv show ?thesis by (simp add: dict_item_def)
  next
    case False
    let ?d' = "dict_set name (PDict (dict_set k v e)) d"
    have "map_of ?d' name = Some (PDict (dict_set k v e))" by (simp add: map_of_dict_set)
    from Cons.IH[OF this] False Cons.prems kv show ?thesis
      by (simp add: dict_item_def set_nested_dict dict_set_twice)
  qed
qed

subsection \<open>The normalizer in closed form\<close>

lemma merge_defaults_eq: "merge_defaults data jd = Inr (PDict (normal_form (as_dict data) jd))"
proof -
  define d1 where "d1 = fill_missing defaults (as_dict data)"
  define e0 where "e0 = sub_dict ''extracted'' d1"
  define s0 where "s0 = sub_dict ''skills_relevance'' d1"
  define d3 where "d3 = dict_set ''skills_relevance'' (PDict s0) (dict_set ''extracted'' (PDict e0) d1)"
  define e where "e = fill_missing defaults_extracted e0"
  define s where "s = fill_missing defaults_skills_relevance s0"
  define d5 where "d5 = dict_set ''skills_relevance'' (PDict s) (dict_set ''extracted'' (PDict e) d1)"
  have d3: "ensure_dict ''skills_relevance'' (ensure_dict ''extracted'' d1) = d3"
    by (simp add: ensure_dict_eq sub_dict_dict_set d3_def e0_def s0_def)
  have "map_of d3 ''extracted'' = Some (PDict e0)"
    by (simp add: d3_def map_of_dict_set)
  then have f1: "fill_nested ''extracted'' defaults_extracted d3 = Inr (dict_set ''extracted'' (PDict e) d3)"
    by (simp add: fill_nested_dict e_def)
  have "map_of (dict_set ''extracted'' (PDict e) d3) ''skills_relevance'' = Some (PDict s0)"
    by (simp add: d3_def map_of_dict_set)
  then have f2: "fill_nested ''skills_relevance'' defaults_skills_relevance (dict_set ''extracted'' (PDict e) d3)
      = Inr (dict_set ''skills_relevance'' (PDict s) (dict_set ''extracted'' (PDict e) d3))"
    by (simp add: fill_nested_dict s_def)
  have d5: "dict_set ''skills_relevance'' (PDict s) (dict_set ''extracted'' (PDict e) d3) = d5"
    by (simp add: d3_def d5_def dict_set_swap dict_set_twice)
  let ?d6 = "dict_set ''missing_keywords'' (PList []) d5"
  have "map_of ?d6 ''skills_relevance'' = Some (PDict s)"
    by (simp add: d5_def map_of_dict_set)
  then have f3: "set_nested ''skills_relevance'' ''missing'' (PList []) ?d6
      = Inr (dict_set ''skills_relevance'' (PDict (dict_set ''missing'' (PList []) s)) ?d6)"
    by (simp add: set_nested_dict)
  let ?d7 = "dict_set ''skills_relevance'' (PDict (dict_set ''missing'' (PList []) s)) ?d6"
  have "map_of ?d7 ''extracted'' = Some (PDict e)"
    by (simp add: d5_def map_of_dict_set)
  then have f4: "set_nested ''extracted'' ''position'' (PStr '''') ?d7
      = Inr (dict_set ''extracted'' (PDict (dict_set ''position'' (PStr '''') e)) ?d7)"
    by (simp add: set_nested_dict)
  have "merge_defaults data jd =
      (if jd then Inr (PDict d5)
       else Inr (PDict (dict_set ''extracted'' (PDict (dict_set ''position'' (PStr '''') e)) ?d7)))"
    unfolding merge_defaults_def Let_def as_dict_def[symmetric] d1_def[symmetric] d3 f1 sum.case f2 d5
    by (simp add: f3 f4)
  also have "\<dots> = Inr (PDict (normal_form (as_dict data) jd))"
    by (simp add: normal_form_def Let_def d1_def e0_def s0_def e_def s_def d5_def)
  finally show ?thesis .
qed

lemma normal_form_extracted:
  "map_of (normal_form d jd) ''extracted'' = Some (PDict (sub_dict ''extracted'' (normal_form d jd)))"
  by (simp add: normal_form_def Let_def map_of_dict_set sub_dict_dict_set)

lemma normal_form_skills_relevance:
  "map_of (normal_form d jd) ''skills_relevance''
     = Some (PDict (sub_dict ''skills_relevance'' (normal_form d jd)))"
  by (simp add: normal_form_def Let_def map_of_dict_set sub_dict_dict_set)

lemma normal_form_extracted_keys:
  "k \<in> fst ` set defaults_extracted \<Longrightarrow> dict_contains k (sub_dict ''extracted'' (normal_form d jd))"
  by (simp add: normal_form_def Let_def sub_dict_dict_set dict_contains_dict_set
      dict_contains_fill_missing)

lemma normal_form_skills_relevance_keys:
  "k \<in> fst ` set defaults_skills_relevance \<Longrightarrow>
   dict_contains k (sub_dict ''skills_relevance'' (normal_form d jd))"
  by (simp add: normal_form_def Let_def sub_dict_dict_set dict_contains_dict_set
      dict_contains_fill_missing)

lemma normal_form_keys:
  "k \<in> fst ` set defaults \<Longrightarrow> dict_contains k (normal_form d jd)"
  by (simp add: normal_form_def Let_def dict_contains_dict_set dict_contains_fill_missing)

lemma normal_form_position:
  "\<not> jd \<Longrightarrow> map_of (sub_dict ''extracted'' (normal_form d jd)) ''position'' = Some (PStr '''')"
  by (simp add: normal_form_def Let_def sub_dict_dict_set map_of_dict_set)

lemma normal_form_missing:
  "\<not> jd \<Longrightarrow> map_of (sub_dict ''skills_relevance'' (normal_form d jd)) ''missing'' = Some (PList [])"
  by (simp add: normal_form_def Let_def sub_dict_dict_set map_of_dict_set)

lemma normal_form_missing_keywords:
  "\<not> jd \<Longrightarrow> map_of (normal_form d jd) ''missing_keywords'' = Some (PList [])"
  by (simp add: normal_form_def Let_def map_of_dict_set)

lemma defaults_score: "map_of defaults ''score'' = Some (PInt 50)"
  by (simp add: defaults_def)

lemma normal_form_score:
  "map_of (normal_form d jd) ''score'' = Some (case map_of d ''score'' of Some v \<Rightarrow> v | None \<Rightarrow> PInt 50)"
  by (cases "map_of d ''score''")
     (simp_all add: normal_form_def Let_def map_of_dict_set map_of_fill_missing defaults_score)

lemma normal_form_jd_absent: "\<not> jd \<Longrightarrow> jd_absent_fields (PDict (normal_form d jd))"
  by (simp add: jd_absent_fields_def field_def field2_def normal_form_missing_keywords
      normal_form_extracted normal_form_skills_relevance normal_form_position normal_form_missing)

lemma normal_form_complete: "schema_complete (PDict (normal_form d jd))"
proof -
  have 1: "list_all (\<lambda>k. field k (PDict (normal_form d jd)) \<noteq> None) (map fst defaults)"
    using normal_form_keys[of _ d jd]
    by (simp add: list_all_iff field_def dict_contains_def)
  have 2: "list_all (\<lambda>k. field2 ''extracted'' k (PDict (normal_form d jd)) \<noteq> None)
             (map fst defaults_extracted)"
    using normal_form_extracted_keys[of _ d jd]
    by (simp add: list_all_iff field_def field2_def dict_contains_def normal_form_extracted)
  have 3: "list_all (\<lambda>k. field2 ''skills_relevance'' k (PDict (normal_form d jd)) \<noteq> None)
             (map fst defaults_skills_relevance)"
    using normal_form_skills_relevance_keys[of _ d jd]
    by (simp add: list_all_iff field_def field2_def dict_contains_def normal_form_skills_relevance)
  from 1 2 3 show ?thesis by (simp add: schema_complete_def)
qed

lemma field2_dict:
  assumes "field2 name k r \<noteq> None"
  obtains e where "field name r = Some (PDict e)"
  using assms by (auto simp: field2_def field_def split: option.splits pyval.splits)

lemma normal_form_fixpoint:
  assumes c: "schema_complete (PDict d)" and a: "\<not> jd \<longrightarrow> jd_absent_fields (PDict d)"
  shows "normal_form d jd = d"
proof -
  from c have keys: "list_all (\<lambda>k. map_of d k \<noteq> None) (map fst defaults)"
    and ekeys: "list_all (\<lambda>k. field2 ''extracted'' k (PDict d) \<noteq> None) (map fst defaults_extracted)"
    and skeys: "list_all (\<lambda>k. field2 ''skills_relevance'' k (PDict d) \<noteq> None)
                  (map fst defaults_skills_relevance)"
    by (simp_all add: schema_complete_def field_def)
  from ekeys have "field2 ''extracted'' ''name'' (PDict d) \<noteq> None"
    by (simp add: defaults_extracted_def)
  then obtain e where e: "map_of d ''extracted'' = Some (PDict e)"
    by (rule field2_dict) (simp add: field_def)
  from skeys have "field2 ''skills_relevance'' ''matched'' (PDict d) \<noteq> None"
    by (simp add: defaults_skills_relevance_def)
  then obtain s where s: "map_of d ''skills_relevance'' = Some (PDict s)"
    by (rule field2_dict) (simp add: field_def)
  from ekeys e have "list_all (\<lambda>k. map_of e k \<noteq> None) (map fst defaults_extracted)"
    by (simp add: field2_def field_def)
  then have fe: "fill_missing defaults_extracted e = e" by (rule fill_missing_present)
  from skeys s have "list_all (\<lambda>k. map_of s k \<noteq> None) (map fst defaults_skills_relevance)"
    by (simp add: field2_def field_def)
  then have fs: "fill_missing defaults_skills_relevance s = s" by (rule fill_missing_present)
  from keys have fd: "fill_missing defaults d = d" by (rule fill_missing_present)
  have se: "sub_dict ''extracted'' d = e" and ss: "sub_dict ''skills_relevance'' d = s"
    using e s by (simp_all add: sub_dict_def)
  have d5: "dict_set ''skills_relevance'' (PDict s) (dict_set ''extracted'' (PDict e) d) = d"
    using e s by (simp add: dict_set_same)
  show ?thesis
  proof (cases jd)
    case True
    then show ?thesis by (simp add: normal_form_def Let_def fd se ss fe fs d5)
  next
    case False
    with a have mk: "map_of d ''missing_keywords'' = Some (PList [])"
      and ms: "map_of s ''missing'' = Some (PList [])"
      and po: "map_of e ''position'' = Some (PStr '''')"
      using e s by (simp_all add: jd_absent_fields_def field_def field2_def)
    from False show ?thesis
      by (simp add: normal_form_def Let_def fd se ss fe fs d5 dict_set_same mk ms po e s)
  qed
qed

lemma merge_defaults_fixpoint:
  assumes "schema_complete r" and "\<not> jd \<longrightarrow> jd_absent_fields r"
  shows "merge_defaults r jd = Inr r"
proof -
  from assms(1) have "field ''score'' r \<noteq> None"
    by (simp add: schema_complete_def defaults_def)
  then obtain d where r: "r = PDict d"
    by (cases r) (simp_all add: field_def)
  with assms show ?thesis
    by (simp add: merge_defaults_eq as_dict_def normal_form_fixpoint)
qed

lemma merge_defaults_complete: "\<exists>r. merge_defaults x jd = Inr r \<and> schema_complete r"
  by (simp add: merge_defaults_eq normal_form_complete)

lemma merge_defaults_jd_absent: "\<exists>r. merge_defaults x False = Inr r \<and> jd_absent_fields r"
  by (simp add: merge_defaults_eq normal_form_jd_absent)

lemma merge_defaults_idem: "\<exists>y. merge_defaults x jd = Inr y \<and> merge_defaults y jd = Inr y"
proof -
  let ?y = "PDict (normal_form (as_dict x) jd)"
  have "merge_defaults ?y jd = Inr ?y"
    by (rule merge_defaults_fixpoint) (simp_all add: normal_form_complete normal_form_jd_absent)
  then show ?thesis by (simp add: merge_defaults_eq)
qed

section \<open>Properties of the entry point\<close>

lemma analyze_with_model_result:
  assumes "analyze_with_model E p t jd = (Inr (parsed, raw), sent)" and "parsed \<noteq> PNone"
  shows "\<exists>v. parsed = PDict (normal_form (as_dict v) jd)"
  using assms
  by (auto simp: analyze_with_model_def Let_def merge_defaults_eq
      split: prod.splits sum.splits if_splits)

lemma try_model_Some:
  assumes "try_model E p t jd = (Some r, sent)"
  shows "\<exists>v. r = PDict (normal_form (as_dict v) jd)"
  using assms
  by (auto simp: try_model_def split: if_splits prod.splits sum.splits
      dest: analyze_with_model_result)

lemma analyze_resume_only_report:
  "\<exists>r. fst (analyze_resume_only E t) = Inr r \<and> schema_complete r \<and> jd_absent_fields r"
proof (cases "try_model E (build_resume_only_prompt t) t False")
  case (Pair a sent)
  show ?thesis
  proof (cases a)
    case None
    with Pair show ?thesis
      by (simp add: analyze_resume_only_def merge_defaults_eq normal_form_complete normal_form_jd_absent)
  next
    case (Some r)
    with Pair have tm: "try_model E (build_resume_only_prompt t) t False = (Some r, sent)" by simp
    from try_model_Some[OF tm] obtain v where "r = PDict (normal_form (as_dict v) False)" ..
    with tm show ?thesis
      by (simp add: analyze_resume_only_def normal_form_complete normal_form_jd_absent)
  qed
qed

lemma analyze_report:
  "\<exists>r. fst (analyze_resume_with_ai E t jd) = Inr r \<and> schema_complete r
       \<and> (trimmed_jd jd = [] \<longrightarrow> jd_absent_fields r)"
proof (cases "trimmed_jd jd = []")
  case True
  with analyze_resume_only_report[of E t] show ?thesis
    by (auto simp: analyze_resume_with_ai_def trimmed_jd_def)
next
  case False
  show ?thesis
  proof (cases "try_model E (build_resume_jd_prompt t (trimmed_jd jd)) t True")
    case (Pair a sent)
    show ?thesis
    proof (cases a)
      case None
      with Pair False analyze_resume_only_report[of E t] show ?thesis
        by (auto simp: analyze_resume_with_ai_def trimmed_jd_def split: prod.splits)
    next
      case (Some r)
      with Pair have tm: "try_model E (build_resume_jd_prompt t (trimmed_jd jd)) t True = (Some r, sent)"
        by simp
      from try_model_Some[OF tm] obtain v where "r = PDict (normal_form (as_dict v) True)" ..
      with tm False show ?thesis
        by (simp add: analyze_resume_with_ai_def trimmed_jd_def normal_form_complete)
    qed
  qed
qed

section \<open>Properties of the JSON recovery\<close>

















section \<open>Properties of the fallback and of an attempt\<close>

lemma fallback_report_complete: "schema_complete (fallback_report t)"
  by (simp add: fallback_report_def Let_def schema_complete_def field_def field2_def
      defaults_def defaults_extracted_def defaults_skills_relevance_def)

lemma fallback_report_jd_absent: "jd_absent_fields (fallback_report t)"
  by (simp add: fallback_report_def Let_def jd_absent_fields_def field_def field2_def)

lemma merge_defaults_fallback: "merge_defaults (fallback_report t) False = Inr (fallback_report t)"
  by (rule merge_defaults_fixpoint) (simp_all add: fallback_report_complete fallback_report_jd_absent)

lemma fallback_score_in_range: "score_in_range (fallback_report t)"
  by (simp add: score_in_range_def fallback_report_def Let_def field_def)

text \<open>What a successful attempt returns, and from which response.\<close>

lemma try_model_Some_source:
  assumes "try_model E p t jd = (Some r, sent)"
  shows "\<exists>resp v. has_key E \<and> post_chat E p = Inr resp
           \<and> safe_parse_json E (model_response_to_text E resp) = Inr v \<and> v \<noteq> PNone
           \<and> r = PDict (normal_form (as_dict v) jd)"
  using assms
  by (auto simp: try_model_def analyze_with_model_def call_model_chat_def Let_def merge_defaults_eq
      split: if_splits prod.splits sum.splits)

lemma try_model_sent: "snd (try_model E p t jd) = (if has_key E then [p] else [])"
  by (auto simp: try_model_def analyze_with_model_def call_model_chat_def Let_def
      split: if_splits prod.splits sum.splits)

lemma try_model_no_key: "\<not> has_key E \<Longrightarrow> fst (try_model E p t jd) = None"
  by (simp add: try_model_def)

lemma try_model_request_error: "post_chat E p = Inl e \<Longrightarrow> fst (try_model E p t jd) = None"
  by (simp add: try_model_def analyze_with_model_def call_model_chat_def)

lemma try_model_unparseable:
  assumes "post_chat E p = Inr resp"
    and "\<forall>v. safe_parse_json E (model_response_to_text E resp) = Inr v \<longrightarrow> v = PNone"
  shows "fst (try_model E p t jd) = None"
  using assms
  by (auto simp: try_model_def analyze_with_model_def call_model_chat_def Let_def
      split: if_splits prod.splits sum.splits)

lemma try_model_success:
  assumes "has_key E" and "post_chat E p = Inr resp"
    and "safe_parse_json E (model_response_to_text E resp) = Inr v" and "v \<noteq> PNone"
  shows "fst (try_model E p t jd) = Some (PDict (normal_form (as_dict v) jd))"
  using assms
  by (simp add: try_model_def analyze_with_model_def call_model_chat_def Let_def merge_defaults_eq)

lemma analyze_resume_only_fst:
  "fst (analyze_resume_only E t) =
     (case fst (try_model E (build_resume_only_prompt t) t False) of
        Some parsed \<Rightarrow> Inr parsed
      | None \<Rightarrow> Inr (fallback_report t))"
  by (simp add: analyze_resume_only_def merge_defaults_fallback split: prod.splits option.splits)

lemma analyze_resume_only_sent:
  "snd (analyze_resume_only E t) = (if has_key E then [build_resume_only_prompt t] else [])"
proof (cases "try_model E (build_resume_only_prompt t) t False")
  case (Pair a sent)
  with try_model_sent[of E "build_resume_only_prompt t" t False]
  have "sent = (if has_key E then [build_resume_only_prompt t] else [])" by simp
  with Pair show ?thesis
    by (cases a) (simp_all add: analyze_resume_only_def)
qed

lemma analyze_fst:
  "fst (analyze_resume_with_ai E t jd) =
     (if trimmed_jd jd = [] then fst (analyze_resume_only E t)
      else (case fst (try_model E (build_resume_jd_prompt t (trimmed_jd jd)) t True) of
              Some parsed \<Rightarrow> Inr parsed
            | None \<Rightarrow> fst (analyze_resume_only E t)))"
  by (simp add: analyze_resume_with_ai_def trimmed_jd_def Let_def split: prod.splits option.splits)

lemma analyze_sent:
  "snd (analyze_resume_with_ai E t jd) =
     (if \<not> has_key E then []
      else if trimmed_jd jd = [] then [build_resume_only_prompt t]
      else if fst (try_model E (build_resume_jd_prompt t (trimmed_jd jd)) t True) \<noteq> None
        then [build_resume_jd_prompt t (trimmed_jd jd)]
      else [build_resume_jd_prompt t (trimmed_jd jd), build_resume_only_prompt t])"
proof (cases "trimmed_jd jd = []")
  case True
  then show ?thesis
    by (simp add: analyze_resume_with_ai_def trimmed_jd_def analyze_resume_only_sent)
next
  case False
  obtain a sent where tm: "try_model E (build_resume_jd_prompt t (trimmed_jd jd)) t True = (a, sent)"
    by (cases "try_model E (build_resume_jd_prompt t (trimmed_jd jd)) t True")
  with try_model_sent[of E "build_resume_jd_prompt t (trimmed_jd jd)" t True]
  have sent: "sent = (if has_key E then [build_resume_jd_prompt t (trimmed_jd jd)] else [])" by simp
  obtain r sent' where ro: "analyze_resume_only E t = (r, sent')"
    by (cases "analyze_resume_only E t")
  with analyze_resume_only_sent[of E t]
  have sent': "sent' = (if has_key E then [build_resume_only_prompt t] else [])" by simp
  have "analyze_resume_with_ai E t jd =
          (case a of Some parsed \<Rightarrow> (Inr parsed, sent) | None \<Rightarrow> (r, sent @ sent'))"
    using False tm ro
    by (simp add: analyze_resume_with_ai_def trimmed_jd_def Let_def split: option.splits)
  with tm False sent sent' show ?thesis
    by (cases a) simp_all
qed

lemma sent_only_prompt:
  assumes "has_key E" and "trimmed_jd jd = []"
  shows "build_resume_only_prompt t \<in> set (snd (analyze_resume_with_ai E t jd))"
  using assms by (simp add: analyze_sent)

lemma sent_jd_prompt:
  assumes "has_key E" and "trimmed_jd jd \<noteq> []"
  shows "build_resume_jd_prompt t (trimmed_jd jd) \<in> set (snd (analyze_resume_with_ai E t jd))"
  using assms by (simp add: analyze_sent)

lemma sent_only_prompt_after:
  assumes "has_key E" and "trimmed_jd jd \<noteq> []"
    and "fst (try_model E (build_resume_jd_prompt t (trimmed_jd jd)) t True) = None"
  shows "build_resume_only_prompt t \<in> set (snd (analyze_resume_with_ai E t jd))"
  using assms by (simp add: analyze_sent)





lemma score_field_normal_form:
  "field ''score'' (PDict (normal_form (as_dict v) jd))
     = Some (case field ''score'' v of Some s \<Rightarrow> s | None \<Rightarrow> PInt 50)"
  by (cases v) (simp_all add: field_def normal_form_score as_dict_def)

lemma score_in_range_normal_form:
  assumes "field ''score'' v = None \<or> score_in_range v"
  shows "score_in_range (PDict (normal_form (as_dict v) jd))"
  using assms
  by (auto simp: score_in_range_def score_field_normal_form split: option.splits pyval.splits)

text \<open>The two prompts differ at their thirteenth character.\<close>

lemma prompt_only_head: "\<exists>rest. build_resume_only_prompt t = CHR 0x0A # ''You are an e'' @ rest"
  by (simp add: build_resume_only_prompt_def nl_def)

lemma prompt_jd_head: "\<exists>rest. build_resume_jd_prompt t jd = CHR 0x0A # ''You are an A'' @ rest"
  by (simp add: build_resume_jd_prompt_def nl_def)

lemma prompts_distinct: "build_resume_only_prompt a \<noteq> build_resume_jd_prompt b c"
proof
  assume eq: "build_resume_only_prompt a = build_resume_jd_prompt b c"
  obtain r1 where 1: "build_resume_only_prompt a = CHR 0x0A # ''You are an e'' @ r1"
    using prompt_only_head by blast
  obtain r2 where 2: "build_resume_jd_prompt b c = CHR 0x0A # ''You are an A'' @ r2"
    using prompt_jd_head by blast
  from eq 1 2 show False by simp
qed

section \<open>Evaluation of the samples\<close>

lemma reply_text: "text \<noteq> [] \<Longrightarrow> model_response_to_text E (chat_reply text) = PStr text"
  by (simp add: model_response_to_text_def response_text_try_def first_choice_content_def
      chat_reply_def py_or_def dict_get_def Let_def)

lemma reply_env_simps:
  "has_key (reply_env text)" "post_chat (reply_env text) p = Inr (chat_reply text)"
  "json_loads (reply_env text) = sample_loads"
  by (simp_all add: reply_env_def has_key_def)

lemma down_env_simps:
  "has_key down_env" "post_chat down_env p = Inl (LibraryError ''503 Server Error'')"
  by (simp_all add: down_env_def has_key_def)

lemma strip_sample: "py_strip ''Data engineer'' = ''Data engineer''"
  by (simp add: py_strip_def py_isspace_def)

lemma trimmed_none: "trimmed_jd None = []"
  by (simp add: trimmed_jd_def py_strip_def)

lemma split_on_nonempty: "split_on c s \<noteq> []"
  by (induction s) (auto split: list.splits)

lemma splitext_resume_txt: "py_lower (splitext_ext ''resume.txt'') = ''.txt''"
  by (simp add: splitext_ext_def py_rfind_def py_slice_def slice_index_def Let_def
      py_lower_def py_lower_char_def)

section \<open>Claims\<close>

text \<open>
  C1. With \<open>jd_present = False\<close> the normalizer returns, for every input, a report whose
  \<open>missing_keywords\<close> and \<open>skills_relevance.missing\<close> are the empty list and whose
  \<open>extracted.position\<close> is the empty string; hence so is every report that the entry
  point returns for an empty or absent job description.
\<close>

theorem jd_absence_rule:
  "(\<exists>r. merge_defaults x False = Inr r \<and> jd_absent_fields r)
   \<and> (trimmed_jd job_description = [] \<longrightarrow>
        (\<exists>r. fst (analyze_resume_with_ai E resume_text job_description) = Inr r
             \<and> jd_absent_fields r))"
  using merge_defaults_jd_absent[of x] analyze_report[of E resume_text job_description]
  by blast

theorem jd_absence_rule_witness:
  \<open>trimmed_jd (Some ''  '') = []
   \<and> (\<exists>r. merge_defaults (PDict [(''missing_keywords'', PList [PStr ''Kubernetes'']),
                                  (''extracted'', PDict [(''position'', PStr ''Engineer'')])]) False
            = Inr r \<and> jd_absent_fields r)
   \<and> (\<exists>r. fst (analyze_resume_with_ai (reply_env ''{"score": 77}'') ''python developer'' (Some ''  ''))
            = Inr r \<and> jd_absent_fields r)\<close>
proof -
  have h: "trimmed_jd (Some ''  '') = []"
    by (simp add: trimmed_jd_def py_strip_def py_isspace_def)
  with jd_absence_rule[of "PDict [(''missing_keywords'', PList [PStr ''Kubernetes'']),
                                  (''extracted'', PDict [(''position'', PStr ''Engineer'')])]"
         "Some ''  ''" \<open>reply_env ''{"score": 77}''\<close> "''python developer''"]
  show ?thesis by simp
qed

text \<open>
  C2. The normalizer maps every input, records or not, to a report in which every field
  of the schema is present, and never raises; the entry point returns such a report for
  every resume text and every job description, present or absent, in every environment.
\<close>

theorem schema_totality:
  "(\<exists>r. merge_defaults x jd_present = Inr r \<and> schema_complete r)
   \<and> (\<exists>r. fst (analyze_resume_with_ai E resume_text job_description) = Inr r \<and> schema_complete r)"
  using merge_defaults_complete[of x jd_present] analyze_report[of E resume_text job_description]
  by blast

theorem schema_totality_witness:
  "(\<exists>r. merge_defaults PNone True = Inr r \<and> schema_complete r)
   \<and> (\<exists>r. fst (analyze_resume_with_ai down_env ''python developer'' (Some ''Data engineer'')) = Inr r
            \<and> schema_complete r)"
  by (rule schema_totality)

text \<open>
  C3, as the code has it. The normalizer neither clamps nor rejects a score: the score of
  its report is the score of the input when the input has one, whatever its value, and
  50 otherwise. So the entry point returns a report with an integer score from 0 to 100
  whenever every object recovered from a response to a prompt of the run has no score or
  has an integer score from 0 to 100.
\<close>

theorem score_passed_through:
  "(\<exists>r. merge_defaults x jd = Inr r
        \<and> field ''score'' r = Some (case field ''score'' x of Some s \<Rightarrow> s | None \<Rightarrow> PInt 50))
   \<and> ((\<forall>p \<in> set (snd (analyze_resume_with_ai E t job_description)). \<forall>resp v.
           post_chat E p = Inr resp
           \<longrightarrow> safe_parse_json E (model_response_to_text E resp) = Inr v
           \<longrightarrow> field ''score'' v = None \<or> score_in_range v)
        \<longrightarrow> (\<exists>r. fst (analyze_resume_with_ai E t job_description) = Inr r \<and> score_in_range r))"
proof -
  let ?sent = "set (snd (analyze_resume_with_ai E t job_description))"
  let ?jdp = "build_resume_jd_prompt t (trimmed_jd job_description)"
  let ?only = "build_resume_only_prompt t"
  have a: "\<exists>r. merge_defaults x jd = Inr r
        \<and> field ''score'' r = Some (case field ''score'' x of Some s \<Rightarrow> s | None \<Rightarrow> PInt 50)"
    by (simp add: merge_defaults_eq score_field_normal_form)
  have b: "\<exists>r. fst (analyze_resume_with_ai E t job_description) = Inr r \<and> score_in_range r"
    if h: "\<forall>p \<in> ?sent. \<forall>resp v. post_chat E p = Inr resp
          \<longrightarrow> safe_parse_json E (model_response_to_text E resp) = Inr v
          \<longrightarrow> field ''score'' v = None \<or> score_in_range v"
  proof -
    have tm: "score_in_range r"
      if "fst (try_model E p t jd') = Some r" and "has_key E \<Longrightarrow> p \<in> ?sent" for p jd' r
    proof -
      from that(1) obtain sent where "try_model E p t jd' = (Some r, sent)"
        by (cases "try_model E p t jd'") simp
      from try_model_Some_source[OF this] that(2) h show ?thesis
        by (auto intro: score_in_range_normal_form)
    qed
    have only: "\<exists>r. fst (analyze_resume_only E t) = Inr r \<and> score_in_range r"
      if "has_key E \<Longrightarrow> ?only \<in> ?sent"
      using tm[of ?only False, OF _ that]
      by (cases "fst (try_model E ?only t False)")
         (simp_all add: analyze_resume_only_fst fallback_score_in_range)
    show ?thesis
    proof (cases "trimmed_jd job_description = []")
      case True
      then have "has_key E \<Longrightarrow> ?only \<in> ?sent" by (simp add: sent_only_prompt)
      from only[OF this] True show ?thesis by (simp add: analyze_fst)
    next
      case False
      then have j: "has_key E \<Longrightarrow> ?jdp \<in> ?sent" by (simp add: sent_jd_prompt)
      show ?thesis
      proof (cases "fst (try_model E ?jdp t True)")
        case None
        with False have "has_key E \<Longrightarrow> ?only \<in> ?sent" by (simp add: sent_only_prompt_after)
        from only[OF this] None False show ?thesis by (simp add: analyze_fst)
      next
        case (Some r)
        with tm[of ?jdp True r, OF _ j] False show ?thesis by (simp add: analyze_fst)
      qed
    qed
  qed
  from a b show ?thesis by blast
qed

theorem score_passed_through_witness:
  \<open>(\<exists>r. merge_defaults (PDict [(''score'', PInt 77)]) True = Inr r \<and> field ''score'' r = Some (PInt 77))
   \<and> (\<exists>r. fst (analyze_resume_with_ai (reply_env ''{"score": 77}'') ''Python and SQL developer''
              (Some ''Data engineer'')) = Inr r \<and> score_in_range r)\<close>
proof -
  let ?E = \<open>reply_env ''{"score": 77}''\<close>
  have \<open>json_loads ?E (py_strip ''{"score": 77}'') = Some (PDict [(''score'', PInt 77)])\<close>
    by (simp add: reply_env_simps sample_loads_def py_strip_def py_isspace_def)
  then have sp: \<open>safe_parse_json ?E (PStr ''{"score": 77}'') = Inr (PDict [(''score'', PInt 77)])\<close>
    by (simp add: safe_parse_json_def)
  have h: "\<forall>p \<in> set (snd (analyze_resume_with_ai ?E ''Python and SQL developer'' (Some ''Data engineer''))).
      \<forall>resp v. post_chat ?E p = Inr resp
          \<longrightarrow> safe_parse_json ?E (model_response_to_text ?E resp) = Inr v
          \<longrightarrow> field ''score'' v = None \<or> score_in_range v"
    by (auto simp: reply_env_simps reply_text sp score_in_range_def field_def)
  from score_passed_through[of "PDict [(''score'', PInt 77)]" True ?E "''Python and SQL developer''"
      "Some ''Data engineer''"] h
  show ?thesis by (simp add: field_def)
qed

text \<open>
  An upstream score out of range reaches the caller: a service that answers
  \<^verbatim>\<open>{"score": 150}\<close> gives a report whose score is 150.
\<close>

theorem score_not_clamped_counterexample:
  \<open>(case fst (analyze_resume_with_ai (reply_env ''{"score": 150}'') ''Python and SQL developer'' None) of
      Inl e \<Rightarrow> None | Inr r \<Rightarrow> field ''score'' r) = Some (PInt 150)
   \<and> \<not> (case fst (analyze_resume_with_ai (reply_env ''{"score": 150}'') ''Python and SQL developer'' None) of
      Inl e \<Rightarrow> False | Inr r \<Rightarrow> score_in_range r)\<close>
proof -
  let ?E = \<open>reply_env ''{"score": 150}''\<close>
  have \<open>json_loads ?E (py_strip ''{"score": 150}'') = Some (PDict [(''score'', PInt 150)])\<close>
    by (simp add: reply_env_simps sample_loads_def py_strip_def py_isspace_def)
  then have sp: \<open>safe_parse_json ?E (PStr ''{"score": 150}'') = Inr (PDict [(''score'', PInt 150)])\<close>
    by (simp add: safe_parse_json_def)
  have "fst (try_model ?E p t False) = Some (PDict (normal_form (as_dict (PDict [(''score'', PInt 150)])) False))"
    for p t
    by (rule try_model_success[of ?E p \<open>chat_reply ''{"score": 150}''\<close>])
       (simp_all add: reply_env_simps reply_text sp)
  then have "fst (analyze_resume_with_ai ?E ''Python and SQL developer'' None)
      = Inr (PDict (normal_form (as_dict (PDict [(''score'', PInt 150)])) False))"
    by (simp add: analyze_fst analyze_resume_only_fst trimmed_none)
  then show ?thesis
    by (simp add: score_in_range_def score_field_normal_form) (simp add: field_def)
qed




text \<open>
  C5. The fallback report is a function of the resume text alone: score 55, the first
  five vocabulary words found among the whitespace-separated words of the lower-cased
  text as \<open>matched_keywords\<close> and \<open>extracted.skills\<close>, the first three as
  \<open>skills_relevance.matched\<close>, the experience bucket by the number of words, the fixed
  suggestions and strengths, and \<open>error = fallback_used\<close>; the normalizer with
  \<open>jd_present = False\<close> leaves it as it is; and the entry point returns exactly this report
  whenever no response to a prompt of the run holds parseable JSON.
\<close>

theorem fallback_scorer:
  "field ''score'' (fallback_report t) = Some (PInt 55)
   \<and> field ''matched_keywords'' (fallback_report t)
       = Some (PList (map PStr (take 5 [w \<leftarrow> skill_vocabulary. w \<in> set (py_split (py_lower t))])))
   \<and> field2 ''extracted'' ''skills'' (fallback_report t)
       = Some (PList (map PStr (take 5 [w \<leftarrow> skill_vocabulary. w \<in> set (py_split (py_lower t))])))
   \<and> field2 ''skills_relevance'' ''matched'' (fallback_report t)
       = Some (PList (map PStr (take 3 [w \<leftarrow> skill_vocabulary. w \<in> set (py_split (py_lower t))])))
   \<and> field2 ''extracted'' ''experience'' (fallback_report t)
       = Some (PStr (if length (py_split (py_lower t)) > 40 then ''1-2 years'' else ''Fresher''))
   \<and> field ''suggestions'' (fallback_report t)
       = Some (PList [PStr ''Use relevant keywords from job description'', PStr ''Improve bullet clarity''])
   \<and> field ''strengths'' (fallback_report t)
       = Some (PList [PStr ''Education present'', PStr ''Projects listed''])
   \<and> field ''error'' (fallback_report t) = Some (PStr ''fallback_used'')
   \<and> merge_defaults (fallback_report t) False = Inr (fallback_report t)
   \<and> ((\<forall>p \<in> set (snd (analyze_resume_with_ai E t job_description)). \<forall>resp v.
           post_chat E p = Inr resp
           \<longrightarrow> safe_parse_json E (model_response_to_text E resp) = Inr v \<longrightarrow> v = PNone)
        \<longrightarrow> fst (analyze_resume_with_ai E t job_description) = Inr (fallback_report t))"
proof -
  have fields: "field ''score'' (fallback_report t) = Some (PInt 55)
   \<and> field ''matched_keywords'' (fallback_report t)
       = Some (PList (map PStr (take 5 [w \<leftarrow> skill_vocabulary. w \<in> set (py_split (py_lower t))])))
   \<and> field2 ''extracted'' ''skills'' (fallback_report t)
       = Some (PList (map PStr (take 5 [w \<leftarrow> skill_vocabulary. w \<in> set (py_split (py_lower t))])))
   \<and> field2 ''skills_relevance'' ''matched'' (fallback_report t)
       = Some (PList (map PStr (take 3 [w \<leftarrow> skill_vocabulary. w \<in> set (py_split (py_lower t))])))
   \<and> field2 ''extracted'' ''experience'' (fallback_report t)
       = Some (PStr (if length (py_split (py_lower t)) > 40 then ''1-2 years'' else ''Fresher''))
   \<and> field ''suggestions'' (fallback_report t)
       = Some (PList [PStr ''Use relevant keywords from job description'', PStr ''Improve bullet clarity''])
   \<and> field ''strengths'' (fallback_report t)
       = Some (PList [PStr ''Education present'', PStr ''Projects listed''])
   \<and> field ''error'' (fallback_report t) = Some (PStr ''fallback_used'')"
    by (simp add: fallback_report_def Let_def field_def field2_def)
  let ?sent = "set (snd (analyze_resume_with_ai E t job_description))"
  let ?jdp = "build_resume_jd_prompt t (trimmed_jd job_description)"
  have "fst (analyze_resume_with_ai E t job_description) = Inr (fallback_report t)"
    if h: "\<forall>p \<in> ?sent. \<forall>resp v. post_chat E p = Inr resp
          \<longrightarrow> safe_parse_json E (model_response_to_text E resp) = Inr v \<longrightarrow> v = PNone"
  proof -
    have none: "fst (try_model E p t jd) = None" if "has_key E \<Longrightarrow> p \<in> ?sent" for p jd
    proof (cases "has_key E")
      case False
      then show ?thesis by (rule try_model_no_key)
    next
      case True
      with that have p: "p \<in> ?sent" by simp
      show ?thesis
      proof (cases "post_chat E p")
        case (Inl e)
        then show ?thesis by (rule try_model_request_error)
      next
        case (Inr resp)
        then show ?thesis using h p by (intro try_model_unparseable) auto
      qed
    qed
    show ?thesis
    proof (cases "trimmed_jd job_description = []")
      case True
      then have "has_key E \<Longrightarrow> build_resume_only_prompt t \<in> ?sent"
        by (simp add: sent_only_prompt)
      then have "fst (try_model E (build_resume_only_prompt t) t False) = None"
        by (rule none)
      with True show ?thesis by (simp add: analyze_fst analyze_resume_only_fst)
    next
      case False
      then have "has_key E \<Longrightarrow> ?jdp \<in> ?sent"
        by (simp add: sent_jd_prompt)
      then have 1: "fst (try_model E ?jdp t True) = None"
        by (rule none)
      have "has_key E \<Longrightarrow> build_resume_only_prompt t \<in> ?sent"
        using False 1 by (simp add: sent_only_prompt_after)
      then have "fst (try_model E (build_resume_only_prompt t) t False) = None"
        by (rule none)
      with 1 False show ?thesis by (simp add: analyze_fst analyze_resume_only_fst)
    qed
  qed
  with fields merge_defaults_fallback[of t] show ?thesis by blast
qed

theorem fallback_scorer_witness:
  "fst (analyze_resume_with_ai (reply_env ''Sorry, I cannot help.'') ''Python and SQL developer''
          (Some ''Data engineer''))
     = Inr (fallback_report ''Python and SQL developer'')
   \<and> field ''matched_keywords'' (fallback_report ''Python and SQL developer'')
       = Some (PList [PStr ''python'', PStr ''sql''])
   \<and> field2 ''extracted'' ''experience'' (fallback_report ''Python and SQL developer'')
       = Some (PStr ''Fresher'')
   \<and> field ''score'' (fallback_report ''Python and SQL developer'') = Some (PInt 55)
   \<and> field ''error'' (fallback_report ''Python and SQL developer'') = Some (PStr ''fallback_used'')"
proof -
  let ?E = "reply_env ''Sorry, I cannot help.''"
  have sp: "safe_parse_json ?E (PStr ''Sorry, I cannot help.'') = Inr PNone"
    by (simp add: safe_parse_json_def reply_env_def sample_loads_def py_strip_def py_isspace_def
        py_find_def py_rfind_def Let_def)
  have h: "\<forall>p \<in> set (snd (analyze_resume_with_ai ?E ''Python and SQL developer'' (Some ''Data engineer''))).
      \<forall>resp v. post_chat ?E p = Inr resp
          \<longrightarrow> safe_parse_json ?E (model_response_to_text ?E resp) = Inr v \<longrightarrow> v = PNone"
    by (auto simp: reply_env_simps reply_text sp)
  have w: "py_split (py_lower ''Python and SQL developer'') = [''python'', ''and'', ''sql'', ''developer'']"
    by (simp add: py_split_def py_lower_def py_lower_char_def py_isspace_def char_of_def
        bit_Suc_0_iff)
  from fallback_scorer[of "''Python and SQL developer''" ?E "Some ''Data engineer''"] h w
  show ?thesis by (simp add: skill_vocabulary_def)
qed

text \<open>
  C6. The normalizer is idempotent: it returns a report, and applied to that report with
  the same flag it returns the same report.
\<close>

theorem normalizer_idempotent:
  "\<exists>y. merge_defaults x jd = Inr y \<and> merge_defaults y jd = Inr y"
  by (rule merge_defaults_idem)

theorem normalizer_idempotent_witness:
  "\<exists>y. merge_defaults (PDict [(''extracted'', PInt 5), (''score'', PInt 61)]) False = Inr y
       \<and> merge_defaults y False = Inr y"
  by (rule normalizer_idempotent)

text \<open>
  C7, as the code has it. The prompts that the entry point sends are: none without a
  credential; otherwise the resume-only prompt alone when the trimmed job description is
  empty or absent; otherwise the prompt built from the resume and the trimmed job
  description, followed by the resume-only prompt exactly when that first attempt gave no
  report. The two builders are functions of their arguments, and their results never
  coincide.
\<close>

theorem prompts_sent:
  "snd (analyze_resume_with_ai E t job_description) =
     (if \<not> has_key E then []
      else if trimmed_jd job_description = [] then [build_resume_only_prompt t]
      else if fst (try_model E (build_resume_jd_prompt t (trimmed_jd job_description)) t True) \<noteq> None
        then [build_resume_jd_prompt t (trimmed_jd job_description)]
      else [build_resume_jd_prompt t (trimmed_jd job_description), build_resume_only_prompt t])
   \<and> build_resume_only_prompt a \<noteq> build_resume_jd_prompt b c"
  using analyze_sent[of E t job_description] prompts_distinct[of a b c] by simp

theorem prompts_sent_witness:
  \<open>snd (analyze_resume_with_ai (reply_env ''{"score": 77}'') ''Python and SQL developer'' (Some ''  ''))
     = [build_resume_only_prompt ''Python and SQL developer'']
   \<and> snd (analyze_resume_with_ai (reply_env ''{"score": 77}'') ''Python and SQL developer''
            (Some ''Data engineer''))
     = [build_resume_jd_prompt ''Python and SQL developer'' ''Data engineer'']
   \<and> build_resume_only_prompt ''Python and SQL developer''
       \<noteq> build_resume_jd_prompt ''Python and SQL developer'' ''Data engineer''\<close>
proof -
  let ?E = \<open>reply_env ''{"score": 77}''\<close>
  have 0: "trimmed_jd (Some ''  '') = []"
    by (simp add: trimmed_jd_def py_strip_def py_isspace_def)
  have 1: "trimmed_jd (Some ''Data engineer'') = ''Data engineer''"
    by (simp add: trimmed_jd_def strip_sample)
  have \<open>json_loads ?E (py_strip ''{"score": 77}'') = Some (PDict [(''score'', PInt 77)])\<close>
    by (simp add: reply_env_simps sample_loads_def py_strip_def py_isspace_def)
  then have sp: \<open>safe_parse_json ?E (PStr ''{"score": 77}'') = Inr (PDict [(''score'', PInt 77)])\<close>
    by (simp add: safe_parse_json_def)
  have tm: "fst (try_model ?E p t jd) \<noteq> None" for p t jd
    using try_model_success[of ?E p \<open>chat_reply ''{"score": 77}''\<close> "PDict [(''score'', PInt 77)]" t jd]
    by (simp add: reply_env_simps reply_text sp)
  from prompts_sent[of ?E "''Python and SQL developer''" "Some ''  ''" "''Python and SQL developer''"
      "''Python and SQL developer''" "''Data engineer''"]
    prompts_sent[of ?E "''Python and SQL developer''" "Some ''Data engineer''"
      "''Python and SQL developer''" "''Python and SQL developer''" "''Data engineer''"]
  show ?thesis by (simp add: 0 1 tm reply_env_simps)
qed

text \<open>
  The resume-only prompt is also used with a job description that is not empty: when the
  service fails, it is sent after the prompt with the job description.
\<close>

theorem resume_only_prompt_after_failure_counterexample:
  "trimmed_jd (Some ''Data engineer'') \<noteq> []
   \<and> snd (analyze_resume_with_ai down_env ''Python and SQL developer'' (Some ''Data engineer''))
       = [build_resume_jd_prompt ''Python and SQL developer'' ''Data engineer'',
          build_resume_only_prompt ''Python and SQL developer'']"
proof -
  have 1: "trimmed_jd (Some ''Data engineer'') = ''Data engineer''"
    by (simp add: trimmed_jd_def strip_sample)
  then show ?thesis
    by (simp add: analyze_sent down_env_simps try_model_request_error)
qed

text \<open>
  C8, as the code has it. \<^verbatim>\<open>extract_any\<close> returns the text \<^verbatim>\<open>Unsupported file format\<close> for
  every path whose extension is neither \<^verbatim>\<open>.pdf\<close> nor \<^verbatim>\<open>.docx\<close>. \<^verbatim>\<open>extract_text_from_file\<close>
  returns the empty string for a path that does not exist, and also for an existing path
  with another extension; when PyMuPDF cannot open an existing PDF its exception
  propagates. Only \<^verbatim>\<open>extract_text_from_pdf\<close> turns a failure into the text
  \<^verbatim>\<open>[ERROR extracting PDF]\<close> followed by the message, which is never empty.
\<close>

theorem extractor_failure_modes:
  "(py_lower (splitext_ext path) \<noteq> ''.pdf'' \<and> py_lower (splitext_ext path) \<noteq> ''.docx''
      \<longrightarrow> extract_any F path = Inr ''Unsupported file format'')
   \<and> (\<not> path_exists F path \<longrightarrow> extract_text_from_file F path = Inr [])
   \<and> (path_exists F path \<and> py_lower (last (split_on CHR ''.'' path)) \<noteq> ''pdf''
        \<and> py_lower (last (split_on CHR ''.'' path)) \<noteq> ''docx''
      \<longrightarrow> extract_text_from_file F path = Inr [])
   \<and> (path_exists F path \<and> py_lower (last (split_on CHR ''.'' path)) = ''pdf''
        \<and> fitz_open F path = Inl e
      \<longrightarrow> extract_text_from_file F path = Inl e)
   \<and> (pdfminer_extract_text F path = Inl msg
      \<longrightarrow> extract_text_from_pdf F path = ''[ERROR extracting PDF] '' @ msg
          \<and> extract_text_from_pdf F path \<noteq> [])"
  by (simp add: extract_any_def extract_text_from_file_def extract_text_from_pdf_def Let_def)

theorem extractor_failure_modes_witness:
  "extract_any damaged_files ''resume.txt'' = Inr ''Unsupported file format''
   \<and> extract_text_from_file no_files ''resume.pdf'' = Inr []
   \<and> extract_text_from_file damaged_files ''resume.txt'' = Inr []
   \<and> extract_text_from_file damaged_files ''resume.pdf'' = Inl (LibraryError ''Failed to open file'')
   \<and> extract_text_from_pdf damaged_files ''resume.pdf''
       = ''[ERROR extracting PDF] No /Root object! - Is this really a PDF?''"
proof -
  have a: "path_exists damaged_files p" "\<not> path_exists no_files p"
    "fitz_open damaged_files p = Inl (LibraryError ''Failed to open file'')"
    "pdfminer_extract_text damaged_files p = Inl ''No /Root object! - Is this really a PDF?''" for p
    by (simp_all add: damaged_files_def no_files_def)
  note at_txt = extractor_failure_modes[of "''resume.txt''" damaged_files
      "LibraryError ''Failed to open file''" "''No /Root object! - Is this really a PDF?''"]
  note at_pdf = extractor_failure_modes[of "''resume.pdf''" damaged_files
      "LibraryError ''Failed to open file''" "''No /Root object! - Is this really a PDF?''"]
  note at_gone = extractor_failure_modes[of "''resume.pdf''" no_files
      "LibraryError ''Failed to open file''" "''No such file or directory''"]
  have 1: "extract_any damaged_files ''resume.txt'' = Inr ''Unsupported file format''"
    using at_txt[THEN conjunct1] by (simp add: splitext_resume_txt)
  have 2: "extract_text_from_file no_files ''resume.pdf'' = Inr []"
    using at_gone[THEN conjunct2, THEN conjunct1] by (simp add: a)
  have 3: "extract_text_from_file damaged_files ''resume.txt'' = Inr []"
    using at_txt[THEN conjunct2, THEN conjunct2, THEN conjunct1]
    by (simp add: a py_lower_def py_lower_char_def)
  have 4: "extract_text_from_file damaged_files ''resume.pdf'' = Inl (LibraryError ''Failed to open file'')"
    using at_pdf[THEN conjunct2, THEN conjunct2, THEN conjunct2, THEN conjunct1]
    by (simp add: a py_lower_def py_lower_char_def)
  have 5: "extract_text_from_pdf damaged_files ''resume.pdf''
       = ''[ERROR extracting PDF] No /Root object! - Is this really a PDF?''"
    using at_pdf[THEN conjunct2, THEN conjunct2, THEN conjunct2, THEN conjunct2] by (simp add: a)
  from 1 2 3 4 5 show ?thesis by blast
qed

text \<open>
  An unreadable document does not yield an error string in \<^verbatim>\<open>extract_text_from_file\<close>:
  for an existing PDF that cannot be opened, the function raises.
\<close>

theorem unreadable_pdf_raises_counterexample:
  "path_exists damaged_files ''resume.pdf''
   \<and> fitz_open damaged_files ''resume.pdf'' = Inl (LibraryError ''Failed to open file'')
   \<and> extract_text_from_file damaged_files ''resume.pdf'' = Inl (LibraryError ''Failed to open file'')"
  by (simp add: extract_text_from_file_def damaged_files_def py_lower_def py_lower_char_def)

text \<open>
  C9. When the attempt with the job description fails (no credential, a request error,
  or a response without parseable JSON), and likewise when the job description is only
  whitespace, the entry point returns what \<^verbatim>\<open>_analyze_resume_only\<close> returns, which is
  normalized with \<open>jd_present = False\<close>: the report has an empty \<open>extracted.position\<close>, and
  empty \<open>missing_keywords\<close> and \<open>skills_relevance.missing\<close>, although a job description
  was given. It is the heuristic report when the resume-only attempt gives no report
  either.
\<close>

theorem jd_failure_falls_back:
  assumes "trimmed_jd job_description = []
         \<or> \<not> has_key E
         \<or> (\<exists>e. post_chat E (build_resume_jd_prompt t (trimmed_jd job_description)) = Inl e)
         \<or> (\<exists>resp. post_chat E (build_resume_jd_prompt t (trimmed_jd job_description)) = Inr resp
               \<and> safe_parse_json E (model_response_to_text E resp) = Inr PNone)"
  shows "fst (analyze_resume_with_ai E t job_description) = fst (analyze_resume_only E t)
         \<and> (\<exists>r. fst (analyze_resume_with_ai E t job_description) = Inr r \<and> jd_absent_fields r)
         \<and> (fst (try_model E (build_resume_only_prompt t) t False) = None
              \<longrightarrow> fst (analyze_resume_with_ai E t job_description) = Inr (fallback_report t))"
proof -
  have eq: "fst (analyze_resume_with_ai E t job_description) = fst (analyze_resume_only E t)"
  proof (cases "trimmed_jd job_description = []")
    case True
    then show ?thesis by (simp add: analyze_fst)
  next
    case False
    with assms have "fst (try_model E (build_resume_jd_prompt t (trimmed_jd job_description)) t True) = None"
      using try_model_no_key try_model_request_error try_model_unparseable
      by (elim disjE exE conjE) auto
    with False show ?thesis by (simp add: analyze_fst)
  qed
  moreover from eq analyze_resume_only_report[of E t]
  have "\<exists>r. fst (analyze_resume_with_ai E t job_description) = Inr r \<and> jd_absent_fields r"
    by auto
  moreover from eq
  have "fst (try_model E (build_resume_only_prompt t) t False) = None
          \<longrightarrow> fst (analyze_resume_with_ai E t job_description) = Inr (fallback_report t)"
    by (simp add: analyze_resume_only_fst)
  ultimately show ?thesis by blast
qed

theorem jd_failure_falls_back_witness:
  "trimmed_jd (Some ''Data engineer'') \<noteq> []
   \<and> post_chat down_env (build_resume_jd_prompt ''Python and SQL developer'' ''Data engineer'')
       = Inl (LibraryError ''503 Server Error'')
   \<and> fst (analyze_resume_with_ai down_env ''Python and SQL developer'' (Some ''Data engineer''))
       = Inr (fallback_report ''Python and SQL developer'')
   \<and> (\<exists>r. fst (analyze_resume_with_ai down_env ''Python and SQL developer'' (Some ''Data engineer''))
            = Inr r \<and> jd_absent_fields r)"
proof -
  have 1: "trimmed_jd (Some ''Data engineer'') = ''Data engineer''"
    by (simp add: trimmed_jd_def strip_sample)
  then have 2: "trimmed_jd (Some ''Data engineer'') \<noteq> []" by simp
  have 3: "post_chat down_env (build_resume_jd_prompt ''Python and SQL developer'' ''Data engineer'')
       = Inl (LibraryError ''503 Server Error'')"
    by (simp add: down_env_simps)
  have 4: "fst (try_model down_env (build_resume_only_prompt ''Python and SQL developer'')
             ''Python and SQL developer'' False) = None"
    by (rule try_model_request_error) (simp add: down_env_simps)
  have "fst (analyze_resume_with_ai down_env ''Python and SQL developer'' (Some ''Data engineer''))
       = fst (analyze_resume_only down_env ''Python and SQL developer'')
   \<and> (\<exists>r. fst (analyze_resume_with_ai down_env ''Python and SQL developer'' (Some ''Data engineer''))
            = Inr r \<and> jd_absent_fields r)
   \<and> (fst (try_model down_env (build_resume_only_prompt ''Python and SQL developer'')
             ''Python and SQL developer'' False) = None
        \<longrightarrow> fst (analyze_resume_with_ai down_env ''Python and SQL developer'' (Some ''Data engineer''))
             = Inr (fallback_report ''Python and SQL developer''))"
    by (rule jd_failure_falls_back) (simp add: 1 3)
  with 2 3 4 show ?thesis by blast
qed




end
